theory Spec2Isabelle
  imports Main "HOL-Library.Word"
begin

unbundle bit_operations_syntax

section \<open>Ramzify: the download endpoint, the file endpoint and the cleanup task\<close>

text \<open>
  The theory embeds \<^verbatim>\<open>src/api/main.py\<close>: \<^verbatim>\<open>download_music\<close>,
  \<^verbatim>\<open>get_file\<close> and \<^verbatim>\<open>cleanup_file\<close>. The same three functions stand in
  \<^verbatim>\<open>src/api/server.py\<close>, where only the route prefix \<^verbatim>\<open>/api\<close> differs.
\<close>

subsection \<open>hashlib.md5 (RFC 1321)\<close>

text \<open>
  \<^verbatim>\<open>hashlib.md5(request.video_id.encode()).hexdigest()[:10]\<close> is the only hashing the
  program does. The digest is modelled on 32-bit words. A \<open>string\<close> stands for the UTF-8
  bytes of the Python string, so \<open>encode\<close> reads each character as its byte.
\<close>

definition md5_K :: "32 word list" where
  "md5_K = [0xd76aa478, 0xe8c7b756, 0x242070db, 0xc1bdceee, 0xf57c0faf, 0x4787c62a, 0xa8304613, 0xfd469501,
            0x698098d8, 0x8b44f7af, 0xffff5bb1, 0x895cd7be, 0x6b901122, 0xfd987193, 0xa679438e, 0x49b40821,
            0xf61e2562, 0xc040b340, 0x265e5a51, 0xe9b6c7aa, 0xd62f105d, 0x2441453, 0xd8a1e681, 0xe7d3fbc8,
            0x21e1cde6, 0xc33707d6, 0xf4d50d87, 0x455a14ed, 0xa9e3e905, 0xfcefa3f8, 0x676f02d9, 0x8d2a4c8a,
            0xfffa3942, 0x8771f681, 0x6d9d6122, 0xfde5380c, 0xa4beea44, 0x4bdecfa9, 0xf6bb4b60, 0xbebfbc70,
            0x289b7ec6, 0xeaa127fa, 0xd4ef3085, 0x4881d05, 0xd9d4d039, 0xe6db99e5, 0x1fa27cf8, 0xc4ac5665,
            0xf4292244, 0x432aff97, 0xab9423a7, 0xfc93a039, 0x655b59c3, 0x8f0ccc92, 0xffeff47d, 0x85845dd1,
            0x6fa87e4f, 0xfe2ce6e0, 0xa3014314, 0x4e0811a1, 0xf7537e82, 0xbd3af235, 0x2ad7d2bb, 0xeb86d391]"

definition md5_S :: "nat list" where
  "md5_S = [7, 12, 17, 22, 7, 12, 17, 22, 7, 12, 17, 22, 7, 12, 17, 22,
            5, 9, 14, 20, 5, 9, 14, 20, 5, 9, 14, 20, 5, 9, 14, 20,
            4, 11, 16, 23, 4, 11, 16, 23, 4, 11, 16, 23, 4, 11, 16, 23,
            6, 10, 15, 21, 6, 10, 15, 21, 6, 10, 15, 21, 6, 10, 15, 21]"

definition rotl32 :: "32 word \<Rightarrow> nat \<Rightarrow> 32 word" where
  "rotl32 x n = push_bit n x OR drop_bit (32 - n) x"

text \<open>Padding: the byte 0x80, zero bytes up to 56 modulo 64, then the bit length as
  eight little-endian bytes.\<close>

definition le_bytes :: "nat \<Rightarrow> nat \<Rightarrow> nat list" where
  "le_bytes k n = map (\<lambda>i. (n div 256 ^ i) mod 256) [0..<k]"

definition md5_pad :: "nat list \<Rightarrow> nat list" where
  "md5_pad bs = bs @ [128] @ replicate ((119 - length bs mod 64) mod 64) 0
                   @ le_bytes 8 ((8 * length bs) mod 2 ^ 64)"

definition le_word :: "nat list \<Rightarrow> 32 word" where
  "le_word bs = of_nat (foldr (\<lambda>b acc. b + 256 * acc) bs 0)"

fun chunks :: "nat \<Rightarrow> nat \<Rightarrow> 'a list \<Rightarrow> 'a list list" where
  "chunks 0 k xs = []"
| "chunks (Suc n) k xs = take k xs # chunks n k (drop k xs)"

type_synonym md5_state = "32 word \<times> 32 word \<times> 32 word \<times> 32 word"

definition md5_round :: "32 word list \<Rightarrow> md5_state \<Rightarrow> nat \<times> 32 word \<times> nat \<Rightarrow> md5_state" where
  "md5_round M st r =
     (case st of (A, B, C, D) \<Rightarrow>
      case r of (i, k, s) \<Rightarrow>
        let (F, g) =
              (if i < 16 then ((B AND C) OR (NOT B AND D), i)
               else if i < 32 then ((D AND B) OR (NOT D AND C), (5 * i + 1) mod 16)
               else if i < 48 then (B XOR C XOR D, (3 * i + 5) mod 16)
               else (C XOR (B OR NOT D), (7 * i) mod 16));
            F' = F + A + k + M ! g
        in (D, B + rotl32 F' s, B, C))"

definition md5_rounds :: "(nat \<times> 32 word \<times> nat) list" where
  "md5_rounds = zip [0..<64] (zip md5_K md5_S)"

definition md5_block :: "md5_state \<Rightarrow> nat list \<Rightarrow> md5_state" where
  "md5_block st blk =
     (case st of (a0, b0, c0, d0) \<Rightarrow>
        case foldl (md5_round (map le_word (chunks 16 4 blk))) st md5_rounds of
          (A, B, C, D) \<Rightarrow> (a0 + A, b0 + B, c0 + C, d0 + D))"

definition md5_init :: md5_state where
  "md5_init = (0x67452301, 0xefcdab89, 0x98badcfe, 0x10325476)"

definition md5 :: "nat list \<Rightarrow> nat list" where
  "md5 bs =
     (let p = md5_pad bs in
      case foldl md5_block md5_init (chunks (length p div 64) 64 p) of
        (a, b, c, d) \<Rightarrow> concat (map (\<lambda>w. le_bytes 4 (unat w)) [a, b, c, d]))"

definition hex_digit :: "nat \<Rightarrow> char" where
  "hex_digit n = ''0123456789abcdef'' ! (n mod 16)"

definition hexdigest :: "nat list \<Rightarrow> string" where
  "hexdigest bs = concat (map (\<lambda>b. [hex_digit (b div 16), hex_digit b]) bs)"

definition encode :: "string \<Rightarrow> nat list" where
  "encode s = map of_char s"

subsection \<open>Requests, responses and the server state\<close>

record download_request =
  video_id :: string
  format :: string

text \<open>The dictionary \<^verbatim>\<open>download_music\<close> returns.\<close>

record download_response =
  status :: string
  filename :: string
  download_url :: string

datatype http_exception = HTTPException (status_code: nat) (detail: string)

datatype file_response = FileResponse (path: string) (media_type: string) (sent_as: string)

text \<open>A Python exception: its class and the text \<^verbatim>\<open>str(e)\<close> gives.\<close>

datatype exn = Exn (exn_class: string) (str_exn: string)

text \<open>
  What leaves a handler that has no \<^verbatim>\<open>try\<close> around its body: the
  \<^verbatim>\<open>HTTPException\<close> it raises itself, or an exception of a call it makes, which nothing
  catches.
\<close>

datatype raised = Raise_HTTP http_exception | Raise_Exn exn

record ydl_opts =
  ydl_format :: string
  postprocessor_key :: string
  preferredcodec :: string
  preferredquality :: string
  outtmpl :: string
  quiet :: bool
  no_warnings :: bool

text \<open>
  \<^verbatim>\<open>yt_dlp.YoutubeDL(ydl_opts).download([video_url])\<close> is a collaborator outside the
  repository: given the options, the URL and the directory as it stands, it either returns
  or raises, and leaves the directory in some state. It is a parameter of the model.
\<close>

type_synonym ydl = "ydl_opts \<Rightarrow> string \<Rightarrow> string set \<Rightarrow> (exn + unit) \<times> string set"

text \<open>
  The state the three functions read and write:
  \<^item> \<open>files\<close>: the names \<open>n\<close> for which \<^verbatim>\<open>(DOWNLOAD_DIR / n).exists()\<close> returns true; names
    are taken as distinct directory entries, and every path of the model is written
    relative to \<^verbatim>\<open>DOWNLOAD_DIR\<close>;
  \<^item> \<open>exists_error\<close>: for a name outside \<open>files\<close>, the exception \<^verbatim>\<open>exists()\<close> raises on
    it, if it raises (\<^verbatim>\<open>OSError\<close> for a name longer than the file system takes); on
    the other names outside \<open>files\<close> it returns false;
  \<^item> \<open>undeletable\<close>: the names on which \<^verbatim>\<open>unlink()\<close> raises;
  \<^item> \<open>tasks\<close>: the \<^verbatim>\<open>cleanup_file\<close> coroutines asleep in \<^verbatim>\<open>asyncio.sleep(delay)\<close>, each
    with the time it wakes at and its path, in the order they were started;
  \<^item> \<open>clock\<close>: the time in seconds;
  \<^item> \<open>ydl_calls\<close>: the log of the calls of \<^verbatim>\<open>ydl.download\<close>;
  \<^item> \<open>streaming\<close>: the \<^verbatim>\<open>FileResponse\<close> objects handed to the framework and not yet
    sent in full. No variable of the program holds them; the list records the consumers
    that are reading a file.
\<close>

record server =
  files :: "string set"
  exists_error :: "string \<Rightarrow> exn option"
  undeletable :: "string set"
  tasks :: "(nat \<times> string) list"
  clock :: nat
  ydl_calls :: "(ydl_opts \<times> string) list"
  streaming :: "string list"

text \<open>\<^verbatim>\<open>(DOWNLOAD_DIR / name).exists()\<close>: true, false, or an exception.\<close>

definition path_exists :: "string \<Rightarrow> server \<Rightarrow> exn + bool" where
  "path_exists name s =
     (if name \<in> files s then Inr True
      else case exists_error s name of
             Some e \<Rightarrow> Inl e
           | None \<Rightarrow> Inr False)"

subsection \<open>download\_music\<close>

definition file_hash :: "string \<Rightarrow> string" where
  "file_hash vid = take 10 (hexdigest (md5 (encode vid)))"

definition output_filename :: "download_request \<Rightarrow> string" where
  "output_filename request = file_hash (video_id request) @ ''.'' @ format request"

definition video_url :: "download_request \<Rightarrow> string" where
  "video_url request = ''https://www.youtube.com/watch?v='' @ video_id request"

definition make_ydl_opts :: "download_request \<Rightarrow> ydl_opts" where
  "make_ydl_opts request =
     \<lparr>ydl_format = ''bestaudio/best'',
      postprocessor_key = ''FFmpegExtractAudio'',
      preferredcodec = format request,
      preferredquality = ''192'',
      outtmpl = file_hash (video_id request),
      quiet = True,
      no_warnings = True\<rparr>"

definition ready :: "download_request \<Rightarrow> download_response" where
  "ready request =
     \<lparr>status = ''ready'',
      filename = output_filename request,
      download_url = ''/download/file/'' @ output_filename request\<rparr>"

text \<open>
  The handler. Its whole body is one \<^verbatim>\<open>try\<close> block, and whatever raises in it becomes
  \<^verbatim>\<open>HTTPException(status_code=500, detail=str(e))\<close>: \<^verbatim>\<open>exists()\<close> before any download
  is tried, or \<^verbatim>\<open>ydl.download\<close>. The id is given as the bytes \<^verbatim>\<open>encode()\<close> produces.
  The cleanup task is added only on the path that ran the download and saw it return, and
  it wakes 3600 seconds later.
\<close>

definition download_music ::
    "ydl \<Rightarrow> download_request \<Rightarrow> server \<Rightarrow> (http_exception + download_response) \<times> server" where
  "download_music ydl request s =
     (case path_exists (output_filename request) s of
        Inl e \<Rightarrow> (Inl (HTTPException 500 (str_exn e)), s)
      | Inr True \<Rightarrow> (Inr (ready request), s)
      | Inr False \<Rightarrow>
          let s1 = s\<lparr>ydl_calls := ydl_calls s @ [(make_ydl_opts request, video_url request)]\<rparr>
          in case ydl (make_ydl_opts request) (video_url request) (files s) of
               (Inl e, fs) \<Rightarrow> (Inl (HTTPException 500 (str_exn e)), s1\<lparr>files := fs\<rparr>)
             | (Inr u, fs) \<Rightarrow>
                 (Inr (ready request),
                  s1\<lparr>files := fs,
                     tasks := tasks s @ [(clock s + 3600, output_filename request)]\<rparr>))"

subsection \<open>get\_file\<close>

text \<open>
  The handler of \<^verbatim>\<open>src/api/main.py\<close>. It has no \<^verbatim>\<open>try\<close>: an exception of
  \<^verbatim>\<open>exists()\<close> leaves it as it is. It reads the directory and changes nothing.
\<close>

definition get_file :: "string \<Rightarrow> server \<Rightarrow> raised + file_response" where
  "get_file name s =
     (case path_exists name s of
        Inl e \<Rightarrow> Inl (Raise_Exn e)
      | Inr False \<Rightarrow> Inl (Raise_HTTP (HTTPException 404 ''File not found''))
      | Inr True \<Rightarrow> Inr (FileResponse name ''audio/mpeg'' name))"

text \<open>The handler of \<^verbatim>\<open>src/api/server.py\<close>, the same body under another route.\<close>

definition server_get_file :: "string \<Rightarrow> server \<Rightarrow> raised + file_response" where
  "server_get_file name s =
     (case path_exists name s of
        Inl e \<Rightarrow> Inl (Raise_Exn e)
      | Inr False \<Rightarrow> Inl (Raise_HTTP (HTTPException 404 ''File not found''))
      | Inr True \<Rightarrow> Inr (FileResponse name ''audio/mpeg'' name))"

subsection \<open>cleanup\_file and the passing of time\<close>

text \<open>
  The body of \<^verbatim>\<open>cleanup_file\<close> after its sleep. An exception of \<^verbatim>\<open>exists()\<close> or of
  \<^verbatim>\<open>unlink()\<close> ends in \<^verbatim>\<open>except Exception: pass\<close>.
\<close>

definition cleanup_file :: "string \<Rightarrow> server \<Rightarrow> server" where
  "cleanup_file file_path s =
     (case path_exists file_path s of
        Inl e \<Rightarrow> s
      | Inr False \<Rightarrow> s
      | Inr True \<Rightarrow>
          (if file_path \<in> undeletable s then s
           else s\<lparr>files := files s - {file_path}\<rparr>))"

definition due :: "nat \<Rightarrow> nat \<times> string \<Rightarrow> bool" where
  "due t task = (fst task \<le> t)"

text \<open>
  \<open>sleep n\<close>: \<open>n\<close> seconds pass with no request. Every task whose wake-up time has come
  runs its body, in the order the tasks were started (all delays are 3600, so this is the
  order of the wake-up times), and leaves the list.
\<close>

definition sleep :: "nat \<Rightarrow> server \<Rightarrow> server" where
  "sleep n s =
     (let t = clock s + n
      in foldl (\<lambda>s' task. cleanup_file (snd task) s')
           (s\<lparr>clock := t, tasks := filter (\<lambda>task. \<not> due t task) (tasks s)\<rparr>)
           (filter (due t) (tasks s)))"

subsection \<open>Runs of the server\<close>

datatype event =
    Download ydl download_request
  | GetFile string
  | StreamDone string
  | Sleep nat

text \<open>
  One event at a time: a handler has no \<^verbatim>\<open>await\<close> in its body, so it runs from its
  first line to its return before the next request is looked at. A response of \<open>get_file\<close>
  is being sent from the \<open>GetFile\<close> event to the matching \<open>StreamDone\<close>.
\<close>

fun step :: "server \<Rightarrow> event \<Rightarrow> server" where
  "step s (Download y r) = snd (download_music y r s)"
| "step s (GetFile n) =
     (case get_file n s of
        Inl e \<Rightarrow> s
      | Inr r \<Rightarrow> s\<lparr>streaming := n # streaming s\<rparr>)"
| "step s (StreamDone n) = s\<lparr>streaming := remove1 n (streaming s)\<rparr>"
| "step s (Sleep n) = sleep n s"

definition run :: "server \<Rightarrow> event list \<Rightarrow> server" where
  "run s es = foldl step s es"

text \<open>
  Requests for one and the same pair that arrive together, each with what the downloader
  would do for it: they are handled one after the other, and each caller gets its response.
\<close>

fun fulfil_all ::
    "download_request \<Rightarrow> ydl list \<Rightarrow> server \<Rightarrow> (http_exception + download_response) list \<times> server" where
  "fulfil_all r [] s = ([], s)"
| "fulfil_all r (y # ys) s =
     (case download_music y r s of
        (a, s1) \<Rightarrow> (case fulfil_all r ys s1 of (as, s2) \<Rightarrow> (a # as, s2)))"

text \<open>The number of consumers reading the file \<open>n\<close>.\<close>

definition busy :: "server \<Rightarrow> string \<Rightarrow> nat" where
  "busy s n = count_list (streaming s) n"

definition startup :: server where
  "startup = \<lparr>files = {}, exists_error = (\<lambda>n. None), undeletable = {}, tasks = [], clock = 0,
              ydl_calls = [], streaming = []\<rparr>"

text \<open>A download that works: it writes the file of the requested codec and returns.\<close>

definition ydl_ok :: ydl where
  "ydl_ok opts url fs = (Inr (), insert (outtmpl opts @ ''.'' @ preferredcodec opts) fs)"

text \<open>A download that raises the given exception and writes nothing.\<close>

definition ydl_raises :: "exn \<Rightarrow> ydl" where
  "ydl_raises e opts url fs = (Inl e, fs)"

subsection \<open>Vocabulary for the properties\<close>





text \<open>
  Three requests: a usual one, the same id in another format, and one with an empty id and
  a format that is no audio codec.
\<close>

definition abc_mp3 :: download_request where
  "abc_mp3 = \<lparr>video_id = ''abc123'', format = ''mp3''\<rparr>"


definition no_id_exe :: download_request where
  "no_id_exe = \<lparr>video_id = [], format = ''exe''\<rparr>"

text \<open>
  A state in which \<^verbatim>\<open>exists()\<close> raises on every name longer than 255 characters, as a
  file system with that limit makes it.
\<close>

definition name_too_long :: exn where
  "name_too_long = Exn ''OSError'' ''[Errno 36] File name too long''"

definition limited :: server where
  "limited = startup\<lparr>exists_error := (\<lambda>n. if 255 < length n then Some name_too_long else None)\<rparr>"

definition long_format :: download_request where
  "long_format = \<lparr>video_id = ''abc123'', format = replicate 300 CHR ''a''\<rparr>"

section \<open>Properties\<close>

subsection \<open>Facts about the cleanup task and the passing of time\<close>

lemma path_exists_True: "(path_exists n s = Inr True) = (n \<in> files s)"
  by (simp add: path_exists_def split: option.splits)















lemma download_miss_ok:
  "download_music ydl_ok r startup =
     (Inr (ready r),
      startup\<lparr>ydl_calls := [(make_ydl_opts r, video_url r)],
              files := {output_filename r},
              tasks := [(3600, output_filename r)]\<rparr>)"
  by (simp add: download_music_def path_exists_def startup_def ydl_ok_def make_ydl_opts_def
        output_filename_def)


subsection \<open>Facts about MD5\<close>

text \<open>
  The simplifier evaluates a block in four passes of sixteen rounds. The first two digests
  are the test vectors of RFC 1321, the last two are those of two ids that agree on their
  first ten hexadecimal digits.
\<close>

lemma md5_block_staged:
  assumes "map le_word (chunks 16 4 blk) = M"
      and "foldl (md5_round M) st (take 16 md5_rounds) = s1"
      and "foldl (md5_round M) s1 (take 16 (drop 16 md5_rounds)) = s2"
      and "foldl (md5_round M) s2 (take 16 (drop 32 md5_rounds)) = s3"
      and "foldl (md5_round M) s3 (drop 48 md5_rounds) = (A, B, C, D)"
      and "st = (a0, b0, c0, d0)"
  shows "md5_block st blk = (a0 + A, b0 + B, c0 + C, d0 + D)"
proof -
  have a: "take 16 (drop 32 md5_rounds) @ drop 48 md5_rounds = drop 32 md5_rounds"
    using append_take_drop_id [of 16 "drop 32 md5_rounds"] by simp
  have b: "take 16 (drop 16 md5_rounds) @ drop 32 md5_rounds = drop 16 md5_rounds"
    using append_take_drop_id [of 16 "drop 16 md5_rounds"] by simp
  have "md5_rounds = take 16 md5_rounds @ take 16 (drop 16 md5_rounds)
          @ take 16 (drop 32 md5_rounds) @ drop 48 md5_rounds"
    by (simp add: a b)
  then have "foldl (md5_round M) st md5_rounds = (A, B, C, D)"
    using assms(2-5) by (metis foldl_append)
  then show ?thesis
    using assms(1,6) by (simp add: md5_block_def)
qed

lemma upt_8: "[0..<8] = [0, 1, 2, 3, 4, 5, 6, 7]"
  by code_simp

lemma replicate_numeral: "replicate (numeral k) x = x # replicate (pred_numeral k) x"
  by (simp add: numeral_eq_Suc)

lemma chunks_numeral:
  "chunks (numeral k) n xs = take n xs # chunks (pred_numeral k) n (drop n xs)"
  by (simp add: numeral_eq_Suc)

lemma chunks_1: "chunks 1 n xs = [take n xs]"
  unfolding One_nat_def by simp

lemma upt_4: "[0..<4] = [0, 1, 2, 3]"
  by code_simp

lemma md5_rounds_eval:
  "md5_rounds = [(0, 3614090360, 7),
     (1, 3905402710, 12),
     (2, 606105819, 17),
     (3, 3250441966, 22),
     (4, 4118548399, 7),
     (5, 1200080426, 12),
     (6, 2821735955, 17),
     (7, 4249261313, 22),
     (8, 1770035416, 7),
     (9, 2336552879, 12),
     (10, 4294925233, 17),
     (11, 2304563134, 22),
     (12, 1804603682, 7),
     (13, 4254626195, 12),
     (14, 2792965006, 17),
     (15, 1236535329, 22),
     (16, 4129170786, 5),
     (17, 3225465664, 9),
     (18, 643717713, 14),
     (19, 3921069994, 20),
     (20, 3593408605, 5),
     (21, 38016083, 9),
     (22, 3634488961, 14),
     (23, 3889429448, 20),
     (24, 568446438, 5),
     (25, 3275163606, 9),
     (26, 4107603335, 14),
     (27, 1163531501, 20),
     (28, 2850285829, 5),
     (29, 4243563512, 9),
     (30, 1735328473, 14),
     (31, 2368359562, 20),
     (32, 4294588738, 4),
     (33, 2272392833, 11),
     (34, 1839030562, 16),
     (35, 4259657740, 23),
     (36, 2763975236, 4),
     (37, 1272893353, 11),
     (38, 4139469664, 16),
     (39, 3200236656, 23),
     (40, 681279174, 4),
     (41, 3936430074, 11),
     (42, 3572445317, 16),
     (43, 76029189, 23),
     (44, 3654602809, 4),
     (45, 3873151461, 11),
     (46, 530742520, 16),
     (47, 3299628645, 23),
     (48, 4096336452, 6),
     (49, 1126891415, 10),
     (50, 2878612391, 15),
     (51, 4237533241, 21),
     (52, 1700485571, 6),
     (53, 2399980690, 10),
     (54, 4293915773, 15),
     (55, 2240044497, 21),
     (56, 1873313359, 6),
     (57, 4264355552, 10),
     (58, 2734768916, 15),
     (59, 1309151649, 21),
     (60, 4149444226, 6),
     (61, 3174756917, 10),
     (62, 718787259, 15),
     (63, 3951481745, 21)]"
  by (simp add: md5_rounds_def md5_K_def md5_S_def upt_conv_Cons)

lemma md5_pass1:
  "take 16 md5_rounds = [(0, 3614090360, 7),
     (1, 3905402710, 12),
     (2, 606105819, 17),
     (3, 3250441966, 22),
     (4, 4118548399, 7),
     (5, 1200080426, 12),
     (6, 2821735955, 17),
     (7, 4249261313, 22),
     (8, 1770035416, 7),
     (9, 2336552879, 12),
     (10, 4294925233, 17),
     (11, 2304563134, 22),
     (12, 1804603682, 7),
     (13, 4254626195, 12),
     (14, 2792965006, 17),
     (15, 1236535329, 22)]"
  by (simp add: md5_rounds_eval)

lemma md5_pass2:
  "take 16 (drop 16 md5_rounds) = [(16, 4129170786, 5),
     (17, 3225465664, 9),
     (18, 643717713, 14),
     (19, 3921069994, 20),
     (20, 3593408605, 5),
     (21, 38016083, 9),
     (22, 3634488961, 14),
     (23, 3889429448, 20),
     (24, 568446438, 5),
     (25, 3275163606, 9),
     (26, 4107603335, 14),
     (27, 1163531501, 20),
     (28, 2850285829, 5),
     (29, 4243563512, 9),
     (30, 1735328473, 14),
     (31, 2368359562, 20)]"
  by (simp add: md5_rounds_eval)

lemma md5_pass3:
  "take 16 (drop 32 md5_rounds) = [(32, 4294588738, 4),
     (33, 2272392833, 11),
     (34, 1839030562, 16),
     (35, 4259657740, 23),
     (36, 2763975236, 4),
     (37, 1272893353, 11),
     (38, 4139469664, 16),
     (39, 3200236656, 23),
     (40, 681279174, 4),
     (41, 3936430074, 11),
     (42, 3572445317, 16),
     (43, 76029189, 23),
     (44, 3654602809, 4),
     (45, 3873151461, 11),
     (46, 530742520, 16),
     (47, 3299628645, 23)]"
  by (simp add: md5_rounds_eval)

lemma md5_pass4:
  "drop 48 md5_rounds = [(48, 4096336452, 6),
     (49, 1126891415, 10),
     (50, 2878612391, 15),
     (51, 4237533241, 21),
     (52, 1700485571, 6),
     (53, 2399980690, 10),
     (54, 4293915773, 15),
     (55, 2240044497, 21),
     (56, 1873313359, 6),
     (57, 4264355552, 10),
     (58, 2734768916, 15),
     (59, 1309151649, 21),
     (60, 4149444226, 6),
     (61, 3174756917, 10),
     (62, 718787259, 15),
     (63, 3951481745, 21)]"
  by (simp add: md5_rounds_eval)

lemma md5_empty: "hexdigest (md5 (encode [])) = ''d41d8cd98f00b204e9800998ecf8427e''"
proof -
  let ?M = "[128, 0, 0, 0, 0, 0, 0, 0, 0, 0, 0, 0, 0, 0, 0, 0] :: 32 word list"
  have p: "md5_pad (encode []) = [128, 0, 0, 0, 0, 0, 0, 0, 0, 0, 0, 0, 0, 0, 0, 0, 0, 0, 0, 0, 0, 0, 0, 0, 0, 0, 0, 0, 0, 0, 0, 0, 0, 0, 0, 0, 0, 0, 0, 0, 0, 0, 0, 0, 0, 0, 0, 0, 0, 0, 0, 0, 0, 0, 0, 0, 0, 0, 0, 0, 0, 0, 0, 0]"
    by (simp add: md5_pad_def encode_def le_bytes_def upt_8 replicate_numeral)
  have w: "map le_word (chunks 16 4 (md5_pad (encode []))) = ?M"
    unfolding p by (simp add: chunks_numeral le_word_def)
  have s1: "foldl (md5_round ?M) md5_init (take 16 md5_rounds) = (4117527793, 3598818410, 1520779125, 927548327)"
    unfolding md5_pass1 by (simp add: md5_round_def rotl32_def md5_init_def)
  have s2: "foldl (md5_round ?M) (4117527793, 3598818410, 1520779125, 927548327) (take 16 (drop 16 md5_rounds)) = (326135862, 2720030495, 473023364, 2927104987)"
    unfolding md5_pass2 by (simp add: md5_round_def rotl32_def)
  have s3: "foldl (md5_round ?M) (326135862, 2720030495, 473023364, 2927104987) (take 16 (drop 32 md5_rounds)) = (1062596093, 3397201341, 1759006370, 581115732)"
    unfolding md5_pass3 by (simp add: md5_round_def rotl32_def)
  have s4: "foldl (md5_round ?M) (1062596093, 3397201341, 1759006370, 581115732) (drop 48 md5_rounds) = (1917254355, 350508294, 4283343851, 1846584438)"
    unfolding md5_pass4 by (simp add: md5_round_def rotl32_def)
  have b: "md5_block md5_init (md5_pad (encode [])) = (3649838548, 78774415, 2550759657, 2118318316)"
    using md5_block_staged [OF w s1 s2 s3 s4 md5_init_def] by simp
  have c: "chunks (length (md5_pad (encode [])) div 64) 64 (md5_pad (encode [])) = [md5_pad (encode [])]"
    unfolding p by (simp add: chunks_1)
  show ?thesis
    by (simp add: md5_def Let_def c b hexdigest_def hex_digit_def le_bytes_def upt_4)
qed

lemma md5_abc: "hexdigest (md5 (encode ''abc'')) = ''900150983cd24fb0d6963f7d28e17f72''"
proof -
  let ?M = "[2153996897, 0, 0, 0, 0, 0, 0, 0, 0, 0, 0, 0, 0, 0, 24, 0] :: 32 word list"
  have p: "md5_pad (encode ''abc'') = [97, 98, 99, 128, 0, 0, 0, 0, 0, 0, 0, 0, 0, 0, 0, 0, 0, 0, 0, 0, 0, 0, 0, 0, 0, 0, 0, 0, 0, 0, 0, 0, 0, 0, 0, 0, 0, 0, 0, 0, 0, 0, 0, 0, 0, 0, 0, 0, 0, 0, 0, 0, 0, 0, 0, 0, 24, 0, 0, 0, 0, 0, 0, 0]"
    by (simp add: md5_pad_def encode_def le_bytes_def upt_8 replicate_numeral)
  have w: "map le_word (chunks 16 4 (md5_pad (encode ''abc''))) = ?M"
    unfolding p by (simp add: chunks_numeral le_word_def)
  have s1: "foldl (md5_round ?M) md5_init (take 16 md5_rounds) = (3718887846, 1924133600, 3818292587, 2701465749)"
    unfolding md5_pass1 by (simp add: md5_round_def rotl32_def md5_init_def)
  have s2: "foldl (md5_round ?M) (3718887846, 1924133600, 3818292587, 2701465749) (take 16 (drop 16 md5_rounds)) = (2030729211, 1919107795, 2787673258, 2672289016)"
    unfolding md5_pass2 by (simp add: md5_round_def rotl32_def)
  have s3: "foldl (md5_round ?M) (2030729211, 1919107795, 2787673258, 2672289016) (take 16 (drop 32 md5_rounds)) = (2133741691, 2079037184, 2410570649, 2581161885)"
    unfolding md5_pass3 by (simp add: md5_round_def rotl32_def)
  have s4: "foldl (md5_round ?M) (2133741691, 2079037184, 2410570649, 2581161885) (drop 48 md5_rounds) = (822795919, 3229755059, 3833903576, 1649249458)"
    unfolding md5_pass4 by (simp add: md5_round_def rotl32_def)
  have b: "md5_block md5_init (md5_pad (encode ''abc'')) = (2555380112, 2958021180, 2101319382, 1920983336)"
    using md5_block_staged [OF w s1 s2 s3 s4 md5_init_def] by simp
  have c: "chunks (length (md5_pad (encode ''abc'')) div 64) 64 (md5_pad (encode ''abc'')) = [md5_pad (encode ''abc'')]"
    unfolding p by (simp add: chunks_1)
  show ?thesis
    by (simp add: md5_def Let_def c b hexdigest_def hex_digit_def le_bytes_def upt_4)
qed

lemma md5_id838382: "hexdigest (md5 (encode ''id838382'')) = ''c7539c079ba5292c862d04e5da7a3a97''"
proof -
  let ?M = "[859333737, 842543928, 128, 0, 0, 0, 0, 0, 0, 0, 0, 0, 0, 0, 64, 0] :: 32 word list"
  have p: "md5_pad (encode ''id838382'') = [105, 100, 56, 51, 56, 51, 56, 50, 128, 0, 0, 0, 0, 0, 0, 0, 0, 0, 0, 0, 0, 0, 0, 0, 0, 0, 0, 0, 0, 0, 0, 0, 0, 0, 0, 0, 0, 0, 0, 0, 0, 0, 0, 0, 0, 0, 0, 0, 0, 0, 0, 0, 0, 0, 0, 0, 64, 0, 0, 0, 0, 0, 0, 0]"
    by (simp add: md5_pad_def encode_def le_bytes_def upt_8 replicate_numeral)
  have w: "map le_word (chunks 16 4 (md5_pad (encode ''id838382''))) = ?M"
    unfolding p by (simp add: chunks_numeral le_word_def)
  have s1: "foldl (md5_round ?M) md5_init (take 16 md5_rounds) = (3579093100, 428922674, 3584865784, 3263067993)"
    unfolding md5_pass1 by (simp add: md5_round_def rotl32_def md5_init_def)
  have s2: "foldl (md5_round ?M) (3579093100, 428922674, 3584865784, 3263067993) (take 16 (drop 16 md5_rounds)) = (1078715793, 825089201, 1602121021, 3878429053)"
    unfolding md5_pass2 by (simp add: md5_round_def rotl32_def)
  have s3: "foldl (md5_round ?M) (1078715793, 825089201, 1602121021, 3878429053) (take 16 (drop 32 md5_rounds)) = (1845751855, 224434958, 3525595947, 4065237461)"
    unfolding md5_pass3 by (simp add: md5_round_def rotl32_def)
  have s4: "foldl (md5_round ?M) (1845751855, 224434958, 3525595947, 4065237461) (drop 48 md5_rounds) = (2690068678, 1012660754, 1279873160, 2265458276)"
    unfolding md5_pass4 by (simp add: md5_round_def rotl32_def)
  have b: "md5_block md5_init (md5_pad (encode ''id838382'')) = (127685575, 740926875, 3842256262, 2537192154)"
    using md5_block_staged [OF w s1 s2 s3 s4 md5_init_def] by simp
  have c: "chunks (length (md5_pad (encode ''id838382'')) div 64) 64 (md5_pad (encode ''id838382'')) = [md5_pad (encode ''id838382'')]"
    unfolding p by (simp add: chunks_1)
  show ?thesis
    by (simp add: md5_def Let_def c b hexdigest_def hex_digit_def le_bytes_def upt_4)
qed

lemma md5_id1838918: "hexdigest (md5 (encode ''id1838918'')) = ''c7539c079b17e54fadd9138851fbb6a4''"
proof -
  let ?M = "[942761065, 825833523, 32824, 0, 0, 0, 0, 0, 0, 0, 0, 0, 0, 0, 72, 0] :: 32 word list"
  have p: "md5_pad (encode ''id1838918'') = [105, 100, 49, 56, 51, 56, 57, 49, 56, 128, 0, 0, 0, 0, 0, 0, 0, 0, 0, 0, 0, 0, 0, 0, 0, 0, 0, 0, 0, 0, 0, 0, 0, 0, 0, 0, 0, 0, 0, 0, 0, 0, 0, 0, 0, 0, 0, 0, 0, 0, 0, 0, 0, 0, 0, 0, 72, 0, 0, 0, 0, 0, 0, 0]"
    by (simp add: md5_pad_def encode_def le_bytes_def upt_8 replicate_numeral)
  have w: "map le_word (chunks 16 4 (md5_pad (encode ''id1838918''))) = ?M"
    unfolding p by (simp add: chunks_numeral le_word_def)
  have s1: "foldl (md5_round ?M) md5_init (take 16 md5_rounds) = (755652428, 1201642173, 1595853886, 2389139105)"
    unfolding md5_pass1 by (simp add: md5_round_def rotl32_def md5_init_def)
  have s2: "foldl (md5_round ?M) (755652428, 1201642173, 1595853886, 2389139105) (take 16 (drop 16 md5_rounds)) = (2714525479, 3918835832, 2050586914, 1811017004)"
    unfolding md5_pass2 by (simp add: md5_round_def rotl32_def)
  have s3: "foldl (md5_round ?M) (2714525479, 3918835832, 2050586914, 1811017004) (take 16 (drop 32 md5_rounds)) = (2579017425, 2221511626, 2325247798, 1305332976)"
    unfolding md5_pass3 by (simp add: md5_round_def rotl32_def)
  have s4: "foldl (md5_round ?M) (2579017425, 2221511626, 2325247798, 1305332976) (drop 48 md5_rounds) = (2690068678, 1612147730, 4015586479, 2491721435)"
    unfolding md5_pass4 by (simp add: md5_round_def rotl32_def)
  have b: "md5_block md5_init (md5_pad (encode ''id1838918'')) = (127685575, 1340413851, 2283002285, 2763455313)"
    using md5_block_staged [OF w s1 s2 s3 s4 md5_init_def] by simp
  have c: "chunks (length (md5_pad (encode ''id1838918'')) div 64) 64 (md5_pad (encode ''id1838918'')) = [md5_pad (encode ''id1838918'')]"
    unfolding p by (simp add: chunks_1)
  show ?thesis
    by (simp add: md5_def Let_def c b hexdigest_def hex_digit_def le_bytes_def upt_4)
qed


lemma length_le_bytes: "length (le_bytes k n) = k"
  by (simp add: le_bytes_def)

lemma length_md5: "length (md5 bs) = 16"
  by (simp add: md5_def Let_def length_le_bytes split: prod.splits)

lemma length_hexdigest: "length (hexdigest bs) = 2 * length bs"
  by (induction bs) (simp_all add: hexdigest_def)

lemma length_file_hash: "length (file_hash v) = 10"
  by (simp add: file_hash_def length_hexdigest length_md5)


lemma long_format_raises:
  "path_exists (output_filename long_format) limited = Inl name_too_long"
  by (simp add: path_exists_def limited_def startup_def output_filename_def long_format_def)




lemma fulfil_all_run: "snd (fulfil_all r ys s) = run s (map (\<lambda>y. Download y r) ys)"
proof (induction ys arbitrary: s)
  case Nil
  show ?case by (simp add: run_def)
next
  case (Cons y ys)
  obtain a s1 where d: "download_music y r s = (a, s1)"
    by (cases "download_music y r s")
  obtain as s2 where f: "fulfil_all r ys s1 = (as, s2)"
    by (cases "fulfil_all r ys s1")
  from Cons.IH [of s1] f have "s2 = run s1 (map (\<lambda>y. Download y r) ys)" by simp
  with d f show ?case by (simp add: run_def)
qed

subsection \<open>The claims\<close>

text \<open>
  C10. For every requested name, in \<^verbatim>\<open>main.py\<close> and in \<^verbatim>\<open>server.py\<close>, the response of
  \<open>get_file\<close> has media type \<open>audio/mpeg\<close>, whatever the extension of the name, and it is
  given exactly for the names that exist; the other outcomes are exceptions, the one with
  status 404 and the one \<^verbatim>\<open>exists()\<close> raises, both for a name that does not exist.
\<close>

theorem get_file_media_type:
  "(case get_file name s of
      Inr r \<Rightarrow> media_type r = ''audio/mpeg'' \<and> path r = name \<and> name \<in> files s
    | Inl (Raise_HTTP e) \<Rightarrow> status_code e = 404 \<and> name \<notin> files s
    | Inl (Raise_Exn e) \<Rightarrow> exists_error s name = Some e \<and> name \<notin> files s)
   \<and> (case server_get_file name s of
      Inr r \<Rightarrow> media_type r = ''audio/mpeg'' \<and> path r = name \<and> name \<in> files s
    | Inl (Raise_HTTP e) \<Rightarrow> status_code e = 404 \<and> name \<notin> files s
    | Inl (Raise_Exn e) \<Rightarrow> exists_error s name = Some e \<and> name \<notin> files s)"
  by (simp add: get_file_def server_get_file_def path_exists_def split: option.splits)

theorem get_file_media_type_witness:
  "(\<exists>r. get_file ''c7539c079b.m4a'' (startup\<lparr>files := {''c7539c079b.m4a''}\<rparr>) = Inr r
        \<and> media_type r = ''audio/mpeg'')
   \<and> (\<exists>r. server_get_file ''c7539c079b.m4a'' (startup\<lparr>files := {''c7539c079b.m4a''}\<rparr>) = Inr r
        \<and> media_type r = ''audio/mpeg'')"
  using get_file_media_type [of "''c7539c079b.m4a''" "startup\<lparr>files := {''c7539c079b.m4a''}\<rparr>"]
  by (simp add: get_file_def server_get_file_def path_exists_def)

text \<open>
  C4. After a \<open>download_music\<close> that answered \<open>ready\<close>, a later \<open>download_music\<close> for the
  same request, in any state where the file still exists, answers at once with the same
  response (the same file name), leaves the state as it is and calls \<open>ydl.download\<close> no
  further time, whatever the downloader would have done.
\<close>

theorem cache_hit:
  assumes "download_music ydl request s0 = (Inr r, s1)"
      and "output_filename request \<in> files s"
  shows "download_music ydl' request s = (Inr r, s)
         \<and> filename r = output_filename request
         \<and> ydl_calls (snd (download_music ydl' request s)) = ydl_calls s"
proof -
  have "r = ready request"
    using assms(1)
    by (auto simp: download_music_def Let_def split: prod.splits sum.splits bool.splits)
  then show ?thesis
    using assms(2) by (simp add: download_music_def path_exists_def ready_def)
qed

theorem cache_hit_witness:
  "download_music ydl_ok abc_mp3 (snd (download_music ydl_ok abc_mp3 startup))
     = (Inr (ready abc_mp3), snd (download_music ydl_ok abc_mp3 startup))
   \<and> ydl_calls (snd (download_music ydl_ok abc_mp3 (snd (download_music ydl_ok abc_mp3 startup))))
     = [(make_ydl_opts abc_mp3, video_url abc_mp3)]"
proof -
  let ?s1 = "snd (download_music ydl_ok abc_mp3 startup)"
  have a: "download_music ydl_ok abc_mp3 startup = (Inr (ready abc_mp3), ?s1)"
    by (simp add: download_miss_ok)
  have b: "output_filename abc_mp3 \<in> files ?s1"
    by (simp add: download_miss_ok)
  have c: "ydl_calls ?s1 = [(make_ydl_opts abc_mp3, video_url abc_mp3)]"
    by (simp add: download_miss_ok)
  from cache_hit [OF a b, of ydl_ok] c show ?thesis by simp
qed

text \<open>
  C6 as stated fails: a request with an empty \<open>video_id\<close> and the format \<open>exe\<close> is answered
  \<open>ready\<close>, after a call of \<open>ydl.download\<close> on the URL with nothing after \<open>v=\<close>.
\<close>

theorem invalid_input_downloaded_counterexample:
  "fst (download_music ydl_ok no_id_exe startup) = Inr (ready no_id_exe)
   \<and> video_id no_id_exe = []
   \<and> format no_id_exe \<notin> {''mp3'', ''m4a''}
   \<and> ydl_calls (snd (download_music ydl_ok no_id_exe startup))
       = [(make_ydl_opts no_id_exe, ''https://www.youtube.com/watch?v='')]
   \<and> preferredcodec (make_ydl_opts no_id_exe) = ''exe''"
  by (simp add: download_miss_ok) (simp add: no_id_exe_def video_url_def make_ydl_opts_def)

text \<open>
  C6, amended. \<open>download_music\<close> validates nothing; what it does with a request depends on
  \<^verbatim>\<open>exists()\<close> of the file name alone, whatever the \<open>video_id\<close> and the \<open>format\<close>:
  \<^item> \<^verbatim>\<open>exists()\<close> raises (a format so long that the name is no file name): the answer is
    status 500 with the text of that exception, and no download is tried;
  \<^item> the file exists: the answer is \<open>ready\<close>, and no download is tried;
  \<^item> the file does not exist: \<open>ydl.download\<close> is called once on the URL built from the id,
    with the format as the preferred codec, and the answer is \<open>ready\<close> or status 500.
  No answer is an error for the input.
\<close>

theorem no_input_validation:
  "(case path_exists (output_filename request) s of
      Inl e \<Rightarrow> download_music ydl request s = (Inl (HTTPException 500 (str_exn e)), s)
    | Inr True \<Rightarrow> download_music ydl request s = (Inr (ready request), s)
    | Inr False \<Rightarrow>
        ydl_calls (snd (download_music ydl request s))
          = ydl_calls s @ [(make_ydl_opts request, video_url request)]
        \<and> (case fst (download_music ydl request s) of
              Inl e \<Rightarrow> status_code e = 500
            | Inr r \<Rightarrow> r = ready request))
   \<and> preferredcodec (make_ydl_opts request) = format request
   \<and> video_url request = ''https://www.youtube.com/watch?v='' @ video_id request"
  by (auto simp: download_music_def Let_def make_ydl_opts_def video_url_def
           split: prod.splits sum.splits bool.splits)

theorem no_input_validation_witness:
  "ydl_calls (snd (download_music ydl_ok no_id_exe startup))
        = [(make_ydl_opts no_id_exe, video_url no_id_exe)]
   \<and> fst (download_music ydl_ok no_id_exe startup) = Inr (ready no_id_exe)
   \<and> preferredcodec (make_ydl_opts no_id_exe) = ''exe''
   \<and> video_url no_id_exe = ''https://www.youtube.com/watch?v=''
   \<and> download_music ydl_ok long_format limited
        = (Inl (HTTPException 500 ''[Errno 36] File name too long''), limited)"
proof -
  have a: "path_exists (output_filename no_id_exe) startup = Inr False"
    by (simp add: path_exists_def startup_def)
  have b: "fst (download_music ydl_ok no_id_exe startup) = Inr (ready no_id_exe)"
    by (simp add: download_miss_ok)
  from no_input_validation [where request = no_id_exe and s = startup and ydl = ydl_ok]
       no_input_validation [where request = long_format and s = limited and ydl = ydl_ok] a b
  show ?thesis
    by (simp add: long_format_raises startup_def no_id_exe_def name_too_long_def)
qed

text \<open>
  C8 as stated fails: a failed fetch and a failed transcoding that carry the same message
  get the same response, status 500 with the message, so the response carries no kind.
\<close>

theorem error_kind_lost_counterexample:
  "fst (download_music (ydl_raises (Exn ''DownloadError'' ''ERROR: failed'')) abc_mp3 startup)
     = Inl (HTTPException 500 ''ERROR: failed'')
   \<and> fst (download_music (ydl_raises (Exn ''PostProcessingError'' ''ERROR: failed'')) abc_mp3 startup)
     = Inl (HTTPException 500 ''ERROR: failed'')"
  by (simp add: download_music_def path_exists_def startup_def ydl_raises_def)

text \<open>
  C8, amended. When \<open>ydl.download\<close> raises, the caller gets \<open>HTTPException\<close> with status 500
  and \<open>str(e)\<close> as its detail, and no cleanup task is added: the failure is not swallowed,
  and is not classified. (The download is called when \<^verbatim>\<open>exists()\<close> has returned false.)
\<close>

theorem executor_error_forwarded:
  assumes "path_exists (output_filename request) s = Inr False"
      and "fst (ydl (make_ydl_opts request) (video_url request) (files s)) = Inl e"
  shows "fst (download_music ydl request s) = Inl (HTTPException 500 (str_exn e))
         \<and> tasks (snd (download_music ydl request s)) = tasks s"
  using assms
  by (auto simp: download_music_def Let_def split: prod.splits sum.splits)

theorem executor_error_forwarded_witness:
  "path_exists (output_filename abc_mp3) startup = Inr False
   \<and> fst (download_music (ydl_raises (Exn ''DownloadError'' ''ERROR: failed'')) abc_mp3 startup)
       = Inl (HTTPException 500 ''ERROR: failed'')
   \<and> tasks (snd (download_music (ydl_raises (Exn ''DownloadError'' ''ERROR: failed'')) abc_mp3 startup)) = []"
proof -
  let ?y = "ydl_raises (Exn ''DownloadError'' ''ERROR: failed'')"
  have h: "path_exists (output_filename abc_mp3) startup = Inr False"
    by (simp add: path_exists_def startup_def)
  have r: "fst (?y (make_ydl_opts abc_mp3) (video_url abc_mp3) (files startup))
             = Inl (Exn ''DownloadError'' ''ERROR: failed'')"
    by (simp add: ydl_raises_def)
  from executor_error_forwarded [where ydl = ?y, OF h r] h show ?thesis
    by (simp add: startup_def)
qed

text \<open>
  C9 as stated fails in its second half: a file that \<open>get_file\<close> has just handed out, with
  one consumer reading it, is removed by \<open>cleanup_file\<close>. Nothing marks it busy.
\<close>

theorem get_file_marks_nothing_counterexample:
  "get_file ''c7539c079b.mp3'' (startup\<lparr>files := {''c7539c079b.mp3''}\<rparr>)
     = Inr (FileResponse ''c7539c079b.mp3'' ''audio/mpeg'' ''c7539c079b.mp3'')
   \<and> busy (step (startup\<lparr>files := {''c7539c079b.mp3''}\<rparr>) (GetFile ''c7539c079b.mp3'')) ''c7539c079b.mp3'' = 1
   \<and> ''c7539c079b.mp3'' \<notin> files (cleanup_file ''c7539c079b.mp3''
          (step (startup\<lparr>files := {''c7539c079b.mp3''}\<rparr>) (GetFile ''c7539c079b.mp3'')))"
  by (simp add: get_file_def path_exists_def busy_def cleanup_file_def startup_def)

text \<open>
  C9, amended. \<open>get_file\<close> answers 404 exactly when \<^verbatim>\<open>exists()\<close> returns false, and a
  \<open>FileResponse\<close> on the path itself, with the name as given, exactly when the file exists;
  when \<^verbatim>\<open>exists()\<close> raises (a name too long to be a file name), that exception leaves the
  handler uncaught. Serving a file changes neither the directory nor the cleanup tasks,
  and \<open>cleanup_file\<close> acts after it as it would have acted before.
\<close>

theorem get_file_not_found_iff:
  "(get_file name s = Inl (Raise_HTTP (HTTPException 404 ''File not found'')))
      = (path_exists name s = Inr False)
   \<and> (get_file name s = Inr (FileResponse name ''audio/mpeg'' name)) = (name \<in> files s)
   \<and> (get_file name s = Inl (Raise_Exn e)) = (path_exists name s = Inl e)
   \<and> files (step s (GetFile name)) = files s
   \<and> undeletable (step s (GetFile name)) = undeletable s
   \<and> tasks (step s (GetFile name)) = tasks s
   \<and> files (cleanup_file p (step s (GetFile name))) = files (cleanup_file p s)"
  by (simp add: get_file_def cleanup_file_def path_exists_def split: option.splits)

text \<open>
  C2 as stated fails: a file is downloaded, 3599 seconds later a consumer starts to read
  it, and one second later, with that consumer still reading, the cleanup task removes it.
\<close>

theorem busy_file_deleted_counterexample:
  "busy (run startup [Download ydl_ok abc_mp3, Sleep 3599, GetFile (output_filename abc_mp3)])
        (output_filename abc_mp3) = 1
   \<and> output_filename abc_mp3
        \<in> files (run startup [Download ydl_ok abc_mp3, Sleep 3599, GetFile (output_filename abc_mp3)])
   \<and> busy (run startup [Download ydl_ok abc_mp3, Sleep 3599, GetFile (output_filename abc_mp3), Sleep 1])
        (output_filename abc_mp3) = 1
   \<and> output_filename abc_mp3
        \<notin> files (run startup [Download ydl_ok abc_mp3, Sleep 3599, GetFile (output_filename abc_mp3), Sleep 1])"
  by (simp add: run_def download_miss_ok)
     (simp add: startup_def sleep_def due_def cleanup_file_def get_file_def path_exists_def busy_def)

text \<open>
  C2, amended. \<open>cleanup_file\<close> removes the file whenever it exists and \<open>unlink\<close> does not
  raise, whatever the consumers reading it; the list of consumers plays no part in it. On a
  file that is absent it changes nothing.
\<close>

theorem cleanup_file_ignores_busy:
  "files (cleanup_file p s) = (if p \<in> undeletable s then files s else files s - {p})
   \<and> cleanup_file p (s\<lparr>streaming := xs\<rparr>) = (cleanup_file p s)\<lparr>streaming := xs\<rparr>
   \<and> cleanup_file p (s\<lparr>files := files s - {p}\<rparr>) = s\<lparr>files := files s - {p}\<rparr>"
  by (auto simp: cleanup_file_def path_exists_def split: option.splits)







text \<open>
  C7 as stated fails: the requests for the ids \<open>id838382\<close> and \<open>id1838918\<close> in format \<open>mp3\<close>
  are distinct and get the same file name.
\<close>

theorem hash_prefix_collision_counterexample:
  "\<lparr>video_id = ''id838382'', format = ''mp3''\<rparr> \<noteq> \<lparr>video_id = ''id1838918'', format = ''mp3''\<rparr>
   \<and> output_filename \<lparr>video_id = ''id838382'', format = ''mp3''\<rparr> = ''c7539c079b.mp3''
   \<and> output_filename \<lparr>video_id = ''id1838918'', format = ''mp3''\<rparr> = ''c7539c079b.mp3''"
  by (simp add: output_filename_def file_hash_def md5_id838382 md5_id1838918)

text \<open>
  C7, amended. The file name is a function of the request, and two requests get the same
  file name exactly when their formats are equal and the MD5 digests of their ids agree on
  the first ten hexadecimal digits.
\<close>

theorem output_filename_eq_iff:
  "(output_filename r = output_filename r')
     = (file_hash (video_id r) = file_hash (video_id r') \<and> format r = format r')"
  by (simp add: output_filename_def length_file_hash)

end
